theory Spec2Isabelle
  imports Main "HOL-Library.Sublist" "HOL-Library.AList"
begin

unbundle bit_operations_syntax

section \<open>Paths and the file system\<close>

text \<open>
  A \<^verbatim>\<open>boost::filesystem::path\<close> is modelled by the sequence of its elements:
  \<^verbatim>\<open>parent_path()\<close> drops the last element, \<^verbatim>\<open>leaf()\<close> is the path made of the
  last element alone, and \<^verbatim>\<open>a / b\<close> appends the elements of \<open>b\<close> to \<open>a\<close>.
  The conversions between \<^verbatim>\<open>std::string\<close> and \<^verbatim>\<open>path\<close> that the source performs
  implicitly are the identity on this representation.
\<close>

type_synonym path = "string list"

definition parent_path :: "path \<Rightarrow> path" where
  "parent_path p = butlast p"

definition leaf :: "path \<Rightarrow> path" where
  "leaf p = (if p = [] then [] else [last p])"

definition slash :: "path \<Rightarrow> path \<Rightarrow> path" where
  "slash p q = p @ q"

fun path_string :: "path \<Rightarrow> string" where
  "path_string [] = []"
| "path_string [x] = x"
| "path_string (x # y # ys) = x @ ''/'' @ path_string (y # ys)"

text \<open>
  The file system is a finite table from paths to nodes. A directory need not be listed
  for its entries to exist; the entries of a directory are the listed paths whose parent it
  is. The operations follow Boost.Filesystem: \<^verbatim>\<open>remove\<close> deletes a file or an empty
  directory and throws on a directory that still has entries, \<^verbatim>\<open>remove_all\<close> deletes a
  whole subtree, \<^verbatim>\<open>copy_file\<close> throws unless the source is a regular file and the
  destination does not exist.
\<close>

datatype node = File string | Directory

type_synonym filesystem = "(path \<times> node) list"

datatype fs_error = RemoveError path | CopyError path path

definition fs_exists :: "filesystem \<Rightarrow> path \<Rightarrow> bool" where
  "fs_exists t p = (map_of t p \<noteq> None)"

definition is_regular_file :: "filesystem \<Rightarrow> path \<Rightarrow> bool" where
  "is_regular_file t p = (case map_of t p of Some (File c) \<Rightarrow> True | _ \<Rightarrow> False)"

definition has_entries :: "filesystem \<Rightarrow> path \<Rightarrow> bool" where
  "has_entries t p = list_ex (\<lambda>e. strict_prefix p (fst e)) t"

definition fs_remove :: "filesystem \<Rightarrow> path \<Rightarrow> fs_error + filesystem" where
  "fs_remove t p =
     (case map_of t p of
        None \<Rightarrow> Inr t
      | Some (File c) \<Rightarrow> Inr (AList.delete p t)
      | Some Directory \<Rightarrow>
          if has_entries t p then Inl (RemoveError p) else Inr (AList.delete p t))"

definition fs_remove_all :: "filesystem \<Rightarrow> path \<Rightarrow> filesystem" where
  "fs_remove_all t p = filter (\<lambda>e. \<not> prefix p (fst e)) t"

definition fs_copy_file :: "filesystem \<Rightarrow> path \<Rightarrow> path \<Rightarrow> fs_error + filesystem" where
  "fs_copy_file t src dst =
     (case map_of t src of
        Some (File c) \<Rightarrow>
          if fs_exists t dst then Inl (CopyError src dst)
          else Inr (AList.update dst (File c) t)
      | _ \<Rightarrow> Inl (CopyError src dst))"

definition directory_list :: "filesystem \<Rightarrow> path \<Rightarrow> path list" where
  "directory_list t d = remdups (filter (\<lambda>q. q \<noteq> [] \<and> parent_path q = d) (map fst t))"

text \<open>
  \<^verbatim>\<open>ifstream inf(p); if(inf) inf >> s;\<close> leaves \<open>s\<close> as it was when the file cannot be
  opened or holds no token, and otherwise stores the first white-space delimited token.
\<close>

definition is_space :: "char \<Rightarrow> bool" where
  "is_space c = (c \<in> set [CHR '' '', CHR 0x09, CHR 0x0A, CHR 0x0B, CHR 0x0C, CHR 0x0D])"

definition read_token :: "string \<Rightarrow> string option" where
  "read_token s =
     (let r = dropWhile is_space s
      in if r = [] then None else Some (takeWhile (\<lambda>c. \<not> is_space c) r))"

definition read_marker :: "filesystem \<Rightarrow> path \<Rightarrow> string \<Rightarrow> string" where
  "read_marker t p cur =
     (case map_of t p of
        Some (File c) \<Rightarrow> (case read_token c of Some tok \<Rightarrow> tok | None \<Rightarrow> cur)
      | _ \<Rightarrow> cur)"

section \<open>Jobs, the progress dialog and the updater's state\<close>

text \<open>
  Modelled from the spec: \<^verbatim>\<open>DownloadJob\<close>, \<^verbatim>\<open>ZipJob\<close> and their status predicates are
  declared outside this unit. A job is observed through snapshots of the spec's
  TransferState; \<^verbatim>\<open>isFinished\<close> reads \<open>finished\<close>, \<^verbatim>\<open>isSuccess\<close> is a finished job that
  succeeded and \<^verbatim>\<open>isNonSuccess\<close> a finished job that did not.
\<close>

record transfer_state =
  bytesTotal :: int
  bytesDone :: int
  finished :: bool
  succeeded :: bool
  canceled :: bool

definition isFinished :: "'a transfer_state_scheme \<Rightarrow> bool" where
  "isFinished j = finished j"

definition isSuccess :: "'a transfer_state_scheme \<Rightarrow> bool" where
  "isSuccess j = (finished j \<and> succeeded j)"

definition isNonSuccess :: "'a transfer_state_scheme \<Rightarrow> bool" where
  "isNonSuccess j = (finished j \<and> \<not> succeeded j)"

text \<open>
  One iteration of a poll loop sees one snapshot of the job and the answer of the progress
  dialog (\<^verbatim>\<open>update(prog)\<close> or \<^verbatim>\<open>pulse()\<close>), which is false when the user clicked Cancel.
\<close>

record poll = transfer_state +
  ui_continue :: bool

text \<open>
  Modelled from the spec: \<^verbatim>\<open>DataList::TigInfo\<close> is declared outside this unit; the
  manifest carries a version token and a download url.
\<close>

record tiginfo =
  ti_version :: string
  ti_url :: string

datatype decode_result = DecodeThrows | DecodeFalse | Decoded tiginfo

text \<open>What fetching a manifest does: the polls seen by the loop, then what
  \<^verbatim>\<open>TigListReader::decodeTigFile\<close> makes of the fetched file.\<close>

record manifest_fetch =
  polls :: "poll list"
  decoded :: decode_result

text \<open>What fetching and unpacking an archive does: the polls of the download, the
  snapshots of the unpack job, and the entries the unpack job leaves below its destination.\<close>

record archive_fetch =
  dl_polls :: "poll list"
  zip_polls :: "transfer_state list"
  zip_entries :: "(path \<times> node) list"

datatype event =
    EvSetMsg string
  | EvLog string
  | EvSleep
  | EvFetch string string
  | EvAbort
  | EvUpdate int
  | EvPulse
  | EvUnzip string path
  | EvRemoveAll path
  | EvRemove path
  | EvCopyFile path path
  | EvExecute path

text \<open>
  The state of an \<^verbatim>\<open>Updater\<close> together with the world it acts on. \<open>trace\<close> lists, in
  order, the calls that leave the process: dialog messages and progress, lines appended to
  update_log.txt (without their time stamp), jobs started and aborted, file operations and
  process launches. The log file is written through a stream of its own and is kept in the
  trace; \<open>files\<close> is the rest of the file system. The files that \<^verbatim>\<open>FileGetter\<close> hands to
  the download jobs are named in the trace only. The 40 ms wait of each poll iteration is
  not recorded.
\<close>

record updater =
  version :: string
  offline :: bool
  gett_base :: path
  files :: filesystem
  trace :: "event list"

definition emit :: "event \<Rightarrow> updater \<Rightarrow> updater" where
  "emit e st = st\<lparr>trace := trace st @ [e]\<rparr>"

definition log :: "string \<Rightarrow> updater \<Rightarrow> updater" where
  "log msg st = emit (EvLog msg) st"

definition setMsg :: "string \<Rightarrow> updater \<Rightarrow> updater" where
  "setMsg msg st = emit (EvSetMsg msg) st"

text \<open>The environment of one run: the operating system, the network and process launch.
  \<^verbatim>\<open>wxOS_WINDOWS\<close> is a constant of wxWidgets and is taken as a parameter.\<close>

record env =
  os_version :: int
  wxOS_WINDOWS :: int
  check_app :: "string \<Rightarrow> manifest_fetch"
  update_app :: "string \<Rightarrow> archive_fetch"
  check_dll :: "string \<Rightarrow> manifest_fetch"
  update_dll :: "string \<Rightarrow> archive_fetch"
  wxExecute :: "path \<Rightarrow> int"

section \<open>UpdateLog::copyLog\<close>

definition copyLog :: "path \<Rightarrow> path \<Rightarrow> updater \<Rightarrow> fs_error + updater" where
  "copyLog src dst st =
     (let st1 = log (''Copy: '' @ path_string src @ '' => '' @ path_string dst) st
      in case (if fs_exists (files st1) dst
               then (case fs_remove (files st1) dst of
                       Inl e \<Rightarrow> Inl e
                     | Inr t \<Rightarrow> Inr (emit (EvRemove dst) (st1\<lparr>files := t\<rparr>)))
               else Inr st1) of
           Inl e \<Rightarrow> Inl e
         | Inr st2 \<Rightarrow>
             (case fs_copy_file (files st2) src dst of
                Inl e \<Rightarrow> Inl e
              | Inr t \<Rightarrow> Inr (emit (EvCopyFile src dst) (st2\<lparr>files := t\<rparr>))))"

section \<open>Updater::checkVersion\<close>

text \<open>
  \<^verbatim>\<open>(int)(getter.current*100.0/getter.total)\<close>: the quotient, truncated towards zero.
  The double arithmetic is modelled by exact arithmetic.
\<close>

definition percent :: "int \<Rightarrow> int \<Rightarrow> int" where
  "percent cur tot = sgn (cur * 100) * sgn tot * (\<bar>cur * 100\<bar> div \<bar>tot\<bar>)"

definition show_progress :: "poll \<Rightarrow> updater \<Rightarrow> updater" where
  "show_progress p st =
     (if bytesTotal p \<noteq> 0
      then (let prog = percent (bytesDone p) (bytesTotal p);
                prog1 = (if prog \<ge> 100 then 99 else prog)
            in emit (EvUpdate prog1) st)
      else emit EvPulse st)"

text \<open>The poll loop of checkVersion. A list of polls that ends before the loop is left
  stands for a job that never finishes and a user who never cancels.\<close>

fun check_loop :: "poll list \<Rightarrow> updater \<Rightarrow> (poll \<times> updater) option" where
  "check_loop [] st = None"
| "check_loop (p # ps) st =
     (let st1 = show_progress p st
      in if \<not> ui_continue p then Some (p, (emit EvAbort st1)\<lparr>offline := True\<rparr>)
         else if isFinished p then Some (p, st1)
         else check_loop ps st1)"

definition check_msg :: string where
  "check_msg = ''Checking for updates'' @ [CHR 0x0A, CHR 0x0A]
     @ ''Press 'Cancel' to run Tiggit in offline mode.''"

definition checkVersion ::
  "manifest_fetch \<Rightarrow> string \<Rightarrow> tiginfo \<Rightarrow> string \<Rightarrow> updater
     \<Rightarrow> ((bool \<times> tiginfo) \<times> updater) option" where
  "checkVersion net url ti ver st =
     (let st0 = emit (EvFetch url ''ver.tmp'') (setMsg check_msg st)
      in case check_loop (polls net) st0 of
           None \<Rightarrow> None
         | Some (p, st1) \<Rightarrow>
             if \<not> isSuccess p \<or> offline st1 then Some ((True, ti), st1)
             else (case decoded net of
                     DecodeFalse \<Rightarrow> Some ((True, ti), st1)
                   | DecodeThrows \<Rightarrow> Some ((True, ti), st1)
                   | Decoded ti1 \<Rightarrow>
                       if ver = ti_version ti1 then Some ((True, ti1), st1)
                       else Some ((False, ti1), st1)))"

section \<open>Updater::doUpdate\<close>

fun download_loop :: "poll list \<Rightarrow> updater \<Rightarrow> (poll \<times> updater) option" where
  "download_loop [] st = None"
| "download_loop (p # ps) st =
     (let st1 = show_progress p st;
          st2 = (if \<not> ui_continue p then emit EvAbort st1 else st1)
      in if isFinished p then Some (p, st2) else download_loop ps st2)"

fun unpack_loop :: "transfer_state list \<Rightarrow> transfer_state option" where
  "unpack_loop [] = None"
| "unpack_loop (j # js) = (if isFinished j then Some j else unpack_loop js)"

definition unpack :: "(path \<times> node) list \<Rightarrow> path \<Rightarrow> filesystem \<Rightarrow> filesystem" where
  "unpack entries dest t = foldl (\<lambda>t1 e. AList.update (slash dest (fst e)) (snd e) t1) t entries"

definition doUpdate ::
  "archive_fetch \<Rightarrow> string \<Rightarrow> path \<Rightarrow> string \<Rightarrow> updater \<Rightarrow> (bool \<times> updater) option" where
  "doUpdate net url up_dest vermsg st =
     (let st0 = emit (EvFetch url ''update.zip'') (setMsg (vermsg @ [CHR 0x0A] @ url) st)
      in case download_loop (dl_polls net) st0 of
           None \<Rightarrow> None
         | Some (p, st1) \<Rightarrow>
             if isNonSuccess p then Some (False, st1)
             else (let st2 = emit (EvUnzip ''update.zip'' up_dest)
                               (setMsg (vermsg @ [CHR 0x0A] @ ''Unpacking...'') st1)
                   in case unpack_loop (zip_polls net) of
                        None \<Rightarrow> None
                      | Some j \<Rightarrow>
                          (let st3 = st2\<lparr>files := unpack (zip_entries net) up_dest (files st2)\<rparr>
                           in if isNonSuccess j then Some (False, st3)
                              else Some (True, st3))))"

section \<open>Updater::doAutoUpdate\<close>

text \<open>The paths that doAutoUpdate derives from the location of the running executable.\<close>

definition this_path_of :: "path \<Rightarrow> path" where
  "this_path_of this_exe = parent_path this_exe"

definition new_exe_of :: "path \<Rightarrow> path" where
  "new_exe_of this_exe = slash (this_path_of this_exe) [''tiggit.exe'']"

definition updater_exe_of :: "path \<Rightarrow> path" where
  "updater_exe_of this_exe = slash (this_path_of this_exe) [''update.exe'']"

definition up_dest_of :: "path \<Rightarrow> path" where
  "up_dest_of this_exe = slash (this_path_of this_exe) [''update'']"

text \<open>The updater role: the loop over the directory of the running executable.\<close>

fun copy_dir :: "path list \<Rightarrow> path \<Rightarrow> updater \<Rightarrow> fs_error + updater" where
  "copy_dir [] new_path st = Inr st"
| "copy_dir (p # ps) new_path st =
     (if \<not> is_regular_file (files st) p then copy_dir ps new_path st
      else (case copyLog p (slash new_path (leaf p)) st of
              Inl e \<Rightarrow> Inl e
            | Inr st1 \<Rightarrow> copy_dir ps new_path st1))"

text \<open>The copy step of the updater role, for the executable \<open>this_exe\<close> in \<open>this_path\<close>
  and the destination \<open>new_exe\<close>.\<close>

definition updater_copy :: "path \<Rightarrow> path \<Rightarrow> path \<Rightarrow> updater \<Rightarrow> fs_error + updater" where
  "updater_copy this_exe this_path new_exe st =
     (let new_path = parent_path new_exe
      in if new_path = this_path then copyLog this_exe new_exe st
         else copy_dir (directory_list (files st) this_path) new_path st)"

definition updater_role :: "env \<Rightarrow> path \<Rightarrow> updater \<Rightarrow> (fs_error + bool \<times> updater) option" where
  "updater_role ev this_exe st =
     (let new_exe = new_exe_of this_exe;
          st1 = log (''Updating to new_exe='' @ path_string new_exe) st;
          st2 = emit EvSleep (setMsg ''Installing update...'' st1)
      in case updater_copy this_exe (this_path_of this_exe) new_exe st2 of
           Inl e \<Rightarrow> Some (Inl e)
         | Inr st3 \<Rightarrow>
             Some (Inr (True, emit (EvExecute new_exe)
                                (log (''Running '' @ path_string new_exe) st3))))"

text \<open>Removal of what an earlier update left behind; the boolean is \<^verbatim>\<open>didClean\<close>.\<close>

definition clean_up :: "path \<Rightarrow> updater \<Rightarrow> fs_error + bool \<times> updater" where
  "clean_up this_exe st =
     (let updater_exe = updater_exe_of this_exe;
          up_dest = up_dest_of this_exe
      in if fs_exists (files st) up_dest \<or> fs_exists (files st) updater_exe
         then (let st1 = setMsg ''Cleaning up...'' st;
                   st2 = log (''Cleaning up '' @ path_string updater_exe @ '' and ''
                              @ path_string up_dest @ ''/'') st1;
                   st3 = emit EvSleep st2;
                   st4 = (if fs_exists (files st3) up_dest
                          then emit (EvRemoveAll up_dest)
                                 (st3\<lparr>files := fs_remove_all (files st3) up_dest\<rparr>)
                          else st3)
               in if fs_exists (files st4) updater_exe
                  then (case fs_remove (files st4) updater_exe of
                          Inl e \<Rightarrow> Inl e
                        | Inr t \<Rightarrow> Inr (True, emit (EvRemove updater_exe) (st4\<lparr>files := t\<rparr>)))
                  else Inr (True, st4))
         else Inr (False, st))"

definition read_version :: "path \<Rightarrow> updater \<Rightarrow> updater" where
  "read_version this_exe st =
     st\<lparr>version := read_marker (files st) (slash (this_path_of this_exe) [''version''])
                     (version st)\<rparr>"

definition latest_url :: "path \<Rightarrow> updater \<Rightarrow> string" where
  "latest_url this_exe st =
     (if fs_exists (files st) (slash (this_path_of this_exe) [''use_test_url''])
      then ''http://tiggit.net/client/latest_test.tig''
      else ''http://tiggit.net/client/latest.tig'')"

definition dlls_url :: string where
  "dlls_url = ''http://tiggit.net/client/dlls.tig''"

text \<open>The end of doAutoUpdate: choice of the executable to run, and its launch.\<close>

definition launch :: "env \<Rightarrow> path \<Rightarrow> bool \<Rightarrow> updater \<Rightarrow> (fs_error + bool \<times> updater) option" where
  "launch ev this_exe newDlls st =
     (let updater_exe = updater_exe_of this_exe;
          up_dest = up_dest_of this_exe;
          run = slash up_dest [''tiggit.exe'']
      in case (if \<not> newDlls
               then (case copyLog run updater_exe st of
                       Inl e \<Rightarrow> Inl e
                     | Inr st1 \<Rightarrow>
                         (case copyLog (slash up_dest [''version''])
                                 (slash (this_path_of this_exe) [''version'']) st1 of
                            Inl e \<Rightarrow> Inl e
                          | Inr st2 \<Rightarrow> Inr (updater_exe, st2)))
               else Inr (run, st)) of
           Inl e \<Rightarrow> Some (Inl e)
         | Inr (run1, st3) \<Rightarrow>
             (let st4 = emit (EvExecute run1) (log (''Running '' @ path_string run1) st3)
              in if wxExecute ev run1 = - 1 then Some (Inr (False, st4))
                 else Some (Inr (True, st4))))"

text \<open>The library channel, after the application has been staged.\<close>

definition upgrade_dlls ::
  "env \<Rightarrow> path \<Rightarrow> tiginfo \<Rightarrow> string \<Rightarrow> updater \<Rightarrow> (fs_error + bool \<times> updater) option" where
  "upgrade_dlls ev this_exe ti vermsg st =
     (let dll_version = read_marker (files st) (slash (this_path_of this_exe) [''dll_version'']) []
      in case checkVersion (check_dll ev dlls_url) dlls_url ti dll_version st of
           None \<Rightarrow> None
         | Some ((True, ti1), st1) \<Rightarrow> launch ev this_exe False st1
         | Some ((False, ti1), st1) \<Rightarrow>
             (let st2 = log (''Upgrading dll-pack version '' @ dll_version @ '' => ''
                             @ ti_version ti1) st1
              in case doUpdate (update_dll ev (ti_url ti1)) (ti_url ti1)
                        (up_dest_of this_exe) vermsg st2 of
                   None \<Rightarrow> None
                 | Some (False, st3) \<Rightarrow> Some (Inr (False, st3))
                 | Some (True, st3) \<Rightarrow> launch ev this_exe True st3))"

text \<open>The application channel: version check, download and staging.\<close>

definition upgrade_app :: "env \<Rightarrow> path \<Rightarrow> updater \<Rightarrow> (fs_error + bool \<times> updater) option" where
  "upgrade_app ev this_exe st =
     (let lurl = latest_url this_exe st;
          st1 = log (''Fetching '' @ lurl) st
      in case checkVersion (check_app ev lurl) lurl \<lparr>ti_version = '''', ti_url = ''''\<rparr>
                (version st1) st1 of
           None \<Rightarrow> None
         | Some ((True, ti), st2) \<Rightarrow>
             Some (Inr (False, log (''Version '' @ version st2 @ '' up-to-date'') st2))
         | Some ((False, ti), st2) \<Rightarrow>
             (let st3 = log (''Upgrading version '' @ version st2 @ '' => '' @ ti_version ti) st2;
                  vermsg = ''Downloading latest update, please wait...'' @ [CHR 0x0A]
                             @ version st3 @ '' -> '' @ ti_version ti
              in case doUpdate (update_app ev (ti_url ti)) (ti_url ti)
                        (up_dest_of this_exe) vermsg st3 of
                   None \<Rightarrow> None
                 | Some (False, st4) \<Rightarrow> Some (Inr (False, st4))
                 | Some (True, st4) \<Rightarrow> upgrade_dlls ev this_exe ti vermsg st4))"

definition main_role :: "env \<Rightarrow> path \<Rightarrow> updater \<Rightarrow> (fs_error + bool \<times> updater) option" where
  "main_role ev this_exe st =
     (case clean_up this_exe st of
        Inl e \<Rightarrow> Some (Inl e)
      | Inr (didClean, st1) \<Rightarrow>
          (let st2 = read_version this_exe st1
           in if didClean then Some (Inr (False, st2))
              else upgrade_app ev this_exe st2))"

text \<open>
  The result is \<open>None\<close> when a poll loop never ends, \<open>Some (Inl e)\<close> when a file operation
  throws \<open>e\<close> out of doAutoUpdate, and \<open>Some (Inr (b, st))\<close> when doAutoUpdate returns \<open>b\<close>.
\<close>

definition doAutoUpdate :: "env \<Rightarrow> path \<Rightarrow> updater \<Rightarrow> (fs_error + bool \<times> updater) option" where
  "doAutoUpdate ev this_exe st =
     (if os_version ev AND wxOS_WINDOWS ev = 0 then Some (Inr (False, st))
      else if fs_exists (files st) (slash (parent_path this_exe) [''override''])
      then Some (Inr (False, st))
      else (let st1 = log (''this_exe='' @ path_string this_exe)
                        (st\<lparr>gett_base := this_path_of this_exe\<rparr>)
            in if leaf this_exe = [''update.exe''] then updater_role ev this_exe st1
               else main_role ev this_exe st1))"

section \<open>Vocabulary of the statements\<close>

text \<open>The exit test of checkVersion's poll loop: the user cancelled or the job finished.\<close>

definition check_stops :: "poll \<Rightarrow> bool" where
  "check_stops p = (\<not> ui_continue p \<or> isFinished p)"


text \<open>A version check whose transfer succeeds without a cancel and whose manifest decodes
  to \<open>ti\<close>.\<close>

definition check_decodes :: "manifest_fetch \<Rightarrow> tiginfo \<Rightarrow> bool" where
  "check_decodes net ti =
     (case find check_stops (polls net) of
        None \<Rightarrow> False
      | Some p \<Rightarrow> ui_continue p \<and> isSuccess p \<and> decoded net = Decoded ti)"

text \<open>A version check that ends and reports that \<open>ver\<close> is current, for whatever reason.\<close>

definition check_uptodate :: "manifest_fetch \<Rightarrow> string \<Rightarrow> bool" where
  "check_uptodate net ver =
     (case find check_stops (polls net) of
        None \<Rightarrow> False
      | Some p \<Rightarrow> \<not> ui_continue p \<or> \<not> isSuccess p
                  \<or> (case decoded net of Decoded ti \<Rightarrow> ti_version ti = ver | _ \<Rightarrow> True))"



text \<open>doAutoUpdate gets past its first two tests and does not take the updater role.\<close>

definition runs_as_main :: "env \<Rightarrow> path \<Rightarrow> updater \<Rightarrow> bool" where
  "runs_as_main ev this_exe st =
     (os_version ev AND wxOS_WINDOWS ev \<noteq> 0
      \<and> \<not> fs_exists (files st) (slash (parent_path this_exe) [''override''])
      \<and> leaf this_exe \<noteq> [''update.exe''])"


definition no_residue :: "path \<Rightarrow> updater \<Rightarrow> bool" where
  "no_residue this_exe st =
     (\<not> fs_exists (files st) (up_dest_of this_exe)
      \<and> \<not> fs_exists (files st) (updater_exe_of this_exe))"

text \<open>The version that the version marker of the install directory records.\<close>

definition local_version :: "path \<Rightarrow> updater \<Rightarrow> string" where
  "local_version this_exe st =
     read_marker (files st) (slash (this_path_of this_exe) [''version'']) (version st)"

definition local_dll_version :: "path \<Rightarrow> updater \<Rightarrow> string" where
  "local_dll_version this_exe st =
     read_marker (files st) (slash (this_path_of this_exe) [''dll_version'']) []"

text \<open>The state in which the main role starts: the base of the file getter is set, the first
  log line is written and the version marker is read.\<close>

definition main_start :: "path \<Rightarrow> updater \<Rightarrow> updater" where
  "main_start this_exe st =
     read_version this_exe
       (log (''this_exe='' @ path_string this_exe) (st\<lparr>gett_base := this_path_of this_exe\<rparr>))"






text \<open>The events that start a job, change the file system or launch a process.\<close>

fun is_action :: "event \<Rightarrow> bool" where
  "is_action (EvFetch u f) = True"
| "is_action (EvUnzip z d) = True"
| "is_action (EvRemoveAll p) = True"
| "is_action (EvRemove p) = True"
| "is_action (EvCopyFile a b) = True"
| "is_action (EvExecute p) = True"
| "is_action e = False"

definition actions :: "event list \<Rightarrow> event list" where
  "actions evs = filter is_action evs"

fun copies :: "event list \<Rightarrow> (path \<times> path) list" where
  "copies [] = []"
| "copies (EvCopyFile a b # evs) = (a, b) # copies evs"
| "copies (e # evs) = copies evs"

fun shown :: "event list \<Rightarrow> int list" where
  "shown [] = []"
| "shown (EvUpdate n # evs) = n # shown evs"
| "shown (e # evs) = shown evs"

definition sibling :: "path \<Rightarrow> path \<Rightarrow> bool" where
  "sibling p q = (p \<noteq> [] \<and> q \<noteq> [] \<and> parent_path p = parent_path q)"


section \<open>Scenarios\<close>

definition poll_done :: poll where
  "poll_done = \<lparr>bytesTotal = 0, bytesDone = 0, finished = True, succeeded = True,
                 canceled = False, ui_continue = True\<rparr>"

definition poll_busy :: poll where
  "poll_busy = \<lparr>bytesTotal = 200, bytesDone = 199, finished = False, succeeded = False,
                 canceled = False, ui_continue = True\<rparr>"


definition poll_cancel :: poll where
  "poll_cancel = \<lparr>bytesTotal = 0, bytesDone = 0, finished = False, succeeded = False,
                   canceled = False, ui_continue = False\<rparr>"

definition job_done :: transfer_state where
  "job_done = \<lparr>bytesTotal = 0, bytesDone = 0, finished = True, succeeded = True,
                canceled = False\<rparr>"

definition manifest_of :: "string \<Rightarrow> string \<Rightarrow> manifest_fetch" where
  "manifest_of v u = \<lparr>polls = [poll_busy, poll_done],
                       decoded = Decoded \<lparr>ti_version = v, ti_url = u\<rparr>\<rparr>"


definition archive_of :: "(path \<times> node) list \<Rightarrow> archive_fetch" where
  "archive_of entries = \<lparr>dl_polls = [poll_busy, poll_done], zip_polls = [job_done],
                          zip_entries = entries\<rparr>"


definition app_zip :: "(path \<times> node) list" where
  "app_zip = [([''tiggit.exe''], File ''exe 1.5.0''), ([''version''], File ''1.5.0'')]"

definition dll_zip :: "(path \<times> node) list" where
  "dll_zip = [([''wx.dll''], File ''dll 2'')]"

text \<open>A Windows host on which the application channel offers \<open>av\<close> and the library
  channel offers \<open>dv\<close>, and where launching a process gives \<open>r\<close>.\<close>

definition windows_env :: "string \<Rightarrow> string \<Rightarrow> int \<Rightarrow> env" where
  "windows_env av dv r =
     \<lparr>os_version = 8, wxOS_WINDOWS = 60,
      check_app = (\<lambda>u. manifest_of av ''http://host/app.zip''),
      update_app = (\<lambda>u. archive_of app_zip),
      check_dll = (\<lambda>u. manifest_of dv ''http://host/dlls.zip''),
      update_dll = (\<lambda>u. archive_of dll_zip),
      wxExecute = (\<lambda>p. r)\<rparr>"

definition linux_env :: env where
  "linux_env = (windows_env ''1.5.0'' ''1'' 4711)\<lparr>os_version := 64\<rparr>"



definition install_exe :: path where
  "install_exe = [''C:'', ''tiggit'', ''tiggit.exe'']"


definition installed :: "filesystem \<Rightarrow> updater" where
  "installed t = \<lparr>version = ''unknown'', offline = False, gett_base = [], files = t,
                   trace = []\<rparr>"

definition install_files :: filesystem where
  "install_files =
     [([''C:'', ''tiggit'', ''tiggit.exe''], File ''exe 1.4.0''),
      ([''C:'', ''tiggit'', ''version''], File ''1.4.0''),
      ([''C:'', ''tiggit'', ''dll_version''], File ''1'')]"










section \<open>Basic facts\<close>

lemma emit_simps [simp]:
  "files (emit e st) = files st" "version (emit e st) = version st"
  "offline (emit e st) = offline st" "gett_base (emit e st) = gett_base st"
  "trace (emit e st) = trace st @ [e]"
  by (simp_all add: emit_def)

lemma log_simps [simp]:
  "files (log m st) = files st" "version (log m st) = version st"
  "offline (log m st) = offline st" "gett_base (log m st) = gett_base st"
  "trace (log m st) = trace st @ [EvLog m]"
  by (simp_all add: log_def)

lemma setMsg_simps [simp]:
  "files (setMsg m st) = files st" "version (setMsg m st) = version st"
  "offline (setMsg m st) = offline st" "gett_base (setMsg m st) = gett_base st"
  "trace (setMsg m st) = trace st @ [EvSetMsg m]"
  by (simp_all add: setMsg_def)

lemma actions_append [simp]: "actions (xs @ ys) = actions xs @ actions ys"
  by (simp add: actions_def)

lemma actions_Nil [simp]: "actions [] = []"
  by (simp add: actions_def)

lemma actions_Cons [simp]: "actions (e # es) = (if is_action e then e # actions es else actions es)"
  by (simp add: actions_def)

lemma copies_append [simp]: "copies (xs @ ys) = copies xs @ copies ys"
  by (induction xs rule: copies.induct) simp_all

lemma shown_append [simp]: "shown (xs @ ys) = shown xs @ shown ys"
  by (induction xs rule: shown.induct) simp_all

lemma show_progress_simps [simp]:
  "files (show_progress p st) = files st" "version (show_progress p st) = version st"
  "offline (show_progress p st) = offline st" "gett_base (show_progress p st) = gett_base st"
  "actions (trace (show_progress p st)) = actions (trace st)"
  "copies (trace (show_progress p st)) = copies (trace st)"
  by (simp_all add: show_progress_def Let_def)

subsection \<open>The poll loops\<close>


lemma check_loop_Some:
  "find check_stops ps = Some p \<Longrightarrow>
   \<exists>st1. check_loop ps st = Some (p, st1) \<and> files st1 = files st \<and> version st1 = version st
      \<and> gett_base st1 = gett_base st \<and> offline st1 = (offline st \<or> \<not> ui_continue p)
      \<and> actions (trace st1) = actions (trace st) \<and> copies (trace st1) = copies (trace st)"
proof (induction ps arbitrary: st)
  case Nil
  then show ?case by simp
next
  case (Cons q ps)
  show ?case
  proof (cases "check_stops q")
    case True
    with Cons.prems have "p = q" by simp
    with True show ?thesis by (auto simp: check_stops_def Let_def)
  next
    case False
    with Cons.prems have "find check_stops ps = Some p" by simp
    from Cons.IH [OF this, of "show_progress q st"] False
    show ?thesis by (auto simp: check_stops_def Let_def)
  qed
qed



subsection \<open>Outcomes of checkVersion and doUpdate\<close>

lemma find_check_stops: "find check_stops ps = Some p \<Longrightarrow> check_stops p"
  by (auto simp: find_Some_iff)

lemma find_isFinished: "find isFinished ps = Some p \<Longrightarrow> isFinished p"
  by (auto simp: find_Some_iff)







subsection \<open>The main role\<close>

lemma main_start_simps [simp]:
  "files (main_start e st) = files st" "offline (main_start e st) = offline st"
  "version (main_start e st) = local_version e st"
  "trace (main_start e st) = trace st @ [EvLog (''this_exe='' @ path_string e)]"
  by (simp_all add: main_start_def read_version_def local_version_def)

lemma latest_url_files: "files st1 = files st \<Longrightarrow> latest_url e st1 = latest_url e st"
  by (simp add: latest_url_def)

lemma latest_url_main_start [simp]: "latest_url e (main_start e st) = latest_url e st"
  by (simp add: latest_url_def)

lemma doAutoUpdate_main:
  assumes "runs_as_main ev e st" and "no_residue e st"
  shows "doAutoUpdate ev e st = upgrade_app ev e (main_start e st)"
  using assms
  by (simp add: doAutoUpdate_def runs_as_main_def no_residue_def main_role_def clean_up_def
      Let_def main_start_def)



lemma read_version_simps [simp]:
  "files (read_version e st) = files st" "offline (read_version e st) = offline st"
  "trace (read_version e st) = trace st"
  by (simp_all add: read_version_def)

lemma checkVersion_uptodate:
  assumes "check_uptodate net ver"
  shows "\<exists>t st1. checkVersion net url ti ver st = Some ((True, t), st1)
           \<and> files st1 = files st \<and> version st1 = version st
           \<and> actions (trace st1) = actions (trace st) @ [EvFetch url ''ver.tmp'']
           \<and> copies (trace st1) = copies (trace st)"
proof -
  let ?st0 = "emit (EvFetch url ''ver.tmp'') (setMsg check_msg st)"
  from assms obtain p where f: "find check_stops (polls net) = Some p"
    and c: "\<not> ui_continue p \<or> \<not> isSuccess p
             \<or> (case decoded net of Decoded ti \<Rightarrow> ti_version ti = ver | _ \<Rightarrow> True)"
    by (auto simp: check_uptodate_def split: option.splits)
  from check_loop_Some [OF f, of ?st0] c
  show ?thesis by (auto simp: checkVersion_def Let_def split: decode_result.splits)
qed
































subsection \<open>Copying a directory\<close>










section \<open>The update pipeline runs on Windows only\<close>

text \<open>
  C10. On an operating system that is not Windows, doAutoUpdate returns false at once:
  the state is the one it was called with, so nothing was cleaned, read, fetched, copied
  or launched.
\<close>

theorem doAutoUpdate_not_windows:
  assumes "os_version ev AND wxOS_WINDOWS ev = 0"
  shows "doAutoUpdate ev this_exe st = Some (Inr (False, st))"
  using assms by (simp add: doAutoUpdate_def)

theorem doAutoUpdate_not_windows_witness:
  "os_version linux_env AND wxOS_WINDOWS linux_env = 0
   \<and> doAutoUpdate linux_env install_exe (installed install_files)
       = Some (Inr (False, installed install_files))"
  using doAutoUpdate_not_windows [of linux_env install_exe "installed install_files"]
  by (simp add: linux_env_def windows_env_def)

section \<open>Install paths\<close>

text \<open>
  C7, as the code has it. The install directory is the parent of the running executable.
  The staging directory and the updater executable are entries of the install directory:
  it is their parent, so they lie inside it, and they are siblings of each other, not of
  the install directory. All of them are functions of the path of the running executable.
\<close>

theorem install_paths:
  "this_path_of this_exe = parent_path this_exe
   \<and> parent_path (up_dest_of this_exe) = this_path_of this_exe
   \<and> parent_path (updater_exe_of this_exe) = this_path_of this_exe
   \<and> parent_path (new_exe_of this_exe) = this_path_of this_exe
   \<and> strict_prefix (this_path_of this_exe) (up_dest_of this_exe)
   \<and> strict_prefix (this_path_of this_exe) (updater_exe_of this_exe)
   \<and> sibling (up_dest_of this_exe) (updater_exe_of this_exe)"
  by (simp add: this_path_of_def up_dest_of_def updater_exe_of_def new_exe_of_def slash_def
      parent_path_def sibling_def strict_prefix_def)

text \<open>For the executable C:/tiggit/tiggit.exe, neither the staging directory nor the
  updater executable is a sibling of the install directory C:/tiggit: both lie inside it.\<close>

theorem install_paths_not_siblings:
  "\<not> sibling (up_dest_of install_exe) (this_path_of install_exe)
   \<and> \<not> sibling (updater_exe_of install_exe) (this_path_of install_exe)
   \<and> strict_prefix (this_path_of install_exe) (up_dest_of install_exe)
   \<and> strict_prefix (this_path_of install_exe) (updater_exe_of install_exe)"
  by (simp add: this_path_of_def up_dest_of_def updater_exe_of_def slash_def
      parent_path_def sibling_def install_exe_def)

section \<open>The offline flag\<close>




section \<open>Clean-up of an interrupted update\<close>




section \<open>An up-to-date application\<close>

text \<open>
  C9. In the main role with nothing to clean up, when the poll loop of the version check
  ends and the manifest decodes to the version that the version marker records,
  doAutoUpdate returns false after logging that the version is up to date. The only job
  of the run is the fetch of the manifest: no archive is fetched, nothing is unpacked,
  and the file system is as before.
\<close>

theorem uptodate_no_transfer:
  assumes "runs_as_main ev this_exe st" and "no_residue this_exe st"
    and "find check_stops (polls (check_app ev (latest_url this_exe st))) = Some p"
    and "decoded (check_app ev (latest_url this_exe st)) = Decoded ti"
    and "ti_version ti = local_version this_exe st"
  shows "\<exists>st'. doAutoUpdate ev this_exe st = Some (Inr (False, st'))
           \<and> files st' = files st
           \<and> actions (trace st') = actions (trace st) @ [EvFetch (latest_url this_exe st) ''ver.tmp'']
           \<and> last (trace st') = EvLog (''Version '' @ local_version this_exe st @ '' up-to-date'')"
proof -
  let ?u = "latest_url this_exe st"
  let ?s = "log (''Fetching '' @ ?u) (main_start this_exe st)"
  let ?ti0 = "\<lparr>ti_version = '''', ti_url = ''''\<rparr>"
  let ?v = "local_version this_exe st"
  have "check_uptodate (check_app ev ?u) ?v"
    using assms(3-5) by (simp add: check_uptodate_def)
  from checkVersion_uptodate [OF this, of ?u ?ti0 ?s]
  obtain t s1 where c: "checkVersion (check_app ev ?u) ?u ?ti0 ?v ?s = Some ((True, t), s1)"
    and f: "files s1 = files st" "version s1 = ?v"
      "actions (trace s1) = actions (trace st) @ [EvFetch ?u ''ver.tmp'']"
    by auto
  have "doAutoUpdate ev this_exe st
          = Some (Inr (False, log (''Version '' @ ?v @ '' up-to-date'') s1))"
    using c f(2) by (simp add: doAutoUpdate_main [OF assms(1,2)] upgrade_app_def Let_def)
  with f show ?thesis by simp
qed

lemma install_scenario:
  "runs_as_main (windows_env av dv r) install_exe (installed install_files)"
  "no_residue install_exe (installed install_files)"
  "\<not> offline (installed install_files)"
  "latest_url install_exe (installed install_files) = ''http://tiggit.net/client/latest.tig''"
  "local_version install_exe (installed install_files) = ''1.4.0''"
  "local_dll_version install_exe (installed install_files) = ''1''"
  "trace (installed install_files) = []"
  by (simp_all add: runs_as_main_def no_residue_def windows_env_def install_exe_def
      installed_def install_files_def fs_exists_def parent_path_def slash_def leaf_def
      up_dest_of_def updater_exe_of_def this_path_of_def latest_url_def local_version_def
      local_dll_version_def read_marker_def read_token_def is_space_def)

lemma manifest_of_scenario:
  "find check_stops (polls (manifest_of v u)) = Some poll_done"
  "decoded (manifest_of v u) = Decoded \<lparr>ti_version = v, ti_url = u\<rparr>"
  "check_decodes (manifest_of v u) \<lparr>ti_version = v, ti_url = u\<rparr>"
  by (simp_all add: manifest_of_def check_stops_def check_decodes_def poll_busy_def
      poll_done_def isFinished_def isSuccess_def)

theorem uptodate_no_transfer_witness:
  "runs_as_main (windows_env ''1.4.0'' ''1'' 4711) install_exe (installed install_files)
   \<and> no_residue install_exe (installed install_files)
   \<and> find check_stops (polls (check_app (windows_env ''1.4.0'' ''1'' 4711)
         (latest_url install_exe (installed install_files)))) = Some poll_done
   \<and> decoded (check_app (windows_env ''1.4.0'' ''1'' 4711)
         (latest_url install_exe (installed install_files)))
       = Decoded \<lparr>ti_version = ''1.4.0'', ti_url = ''http://host/app.zip''\<rparr>
   \<and> ti_version \<lparr>ti_version = ''1.4.0'', ti_url = ''http://host/app.zip''\<rparr>
       = local_version install_exe (installed install_files)
   \<and> (\<exists>st'. doAutoUpdate (windows_env ''1.4.0'' ''1'' 4711) install_exe (installed install_files)
               = Some (Inr (False, st'))
          \<and> files st' = install_files
          \<and> actions (trace st') = [EvFetch ''http://tiggit.net/client/latest.tig'' ''ver.tmp''])"
proof -
  let ?ev = "windows_env ''1.4.0'' ''1'' 4711" and ?s = "installed install_files"
  let ?ti = "\<lparr>ti_version = ''1.4.0'', ti_url = ''http://host/app.zip''\<rparr>"
  have 3: "find check_stops (polls (check_app ?ev (latest_url install_exe ?s))) = Some poll_done"
    and 4: "decoded (check_app ?ev (latest_url install_exe ?s)) = Decoded ?ti"
    by (simp_all add: windows_env_def manifest_of_scenario)
  have 5: "ti_version ?ti = local_version install_exe ?s"
    by (simp add: install_scenario)
  have 6: "files ?s = install_files" by (simp add: installed_def)
  from uptodate_no_transfer [OF install_scenario(1,2) 3 4 5]
  have "\<exists>st'. doAutoUpdate ?ev install_exe ?s = Some (Inr (False, st'))
          \<and> files st' = install_files
          \<and> actions (trace st') = [EvFetch ''http://tiggit.net/client/latest.tig'' ''ver.tmp'']"
    by (auto simp: install_scenario 6)
  with install_scenario(1,2) 3 4 5 show ?thesis by blast
qed

section \<open>The executable to run next\<close>





section \<open>Failures keep the current version running\<close>







section \<open>A launch that fails\<close>






section \<open>Progress shown during a transfer\<close>






section \<open>The copy made by the updater role\<close>





end
